theory Spec2Isabelle
  imports Complex_Main
begin

section \<open>CNNTransformerSE: the transformer encoder wrapper for speech enhancement\<close>

text \<open>
  The source file \<^verbatim>\<open>speechbrain/lobes/models/transformer/TransformerSE.py\<close> defines
  one class, \<^verbatim>\<open>CNNTransformerSE\<close>, with a constructor and a \<^verbatim>\<open>forward\<close> method. Both
  only wire collaborators together: the encoder built by the base class
  \<^verbatim>\<open>TransformerInterface\<close>, the mask generator \<^verbatim>\<open>get_lookahead_mask\<close>, the
  projection \<^verbatim>\<open>Linear\<close>, an optional embedding module and an output activation.

  Conventions of the embedding:
  \<^item> a tensor is its shape together with its elements, read by index list; an element is
    a real number or the floating-point value NaN, which every arithmetic operation
    passes on (rounding and overflow are not modelled);
  \<^item> a module of the tensor framework is a function from a tensor to an error or a
    tensor: deterministic and without hidden state (evaluation mode, dropout inactive);
  \<^item> an exception is a value \<open>Inl e\<close>; a normal return is \<open>Inr v\<close>;
  \<^item> \<^verbatim>\<open>forward\<close> assigns the attribute \<^verbatim>\<open>self.attn_mask\<close>, so it takes the object and
    returns the updated object next to its result.
\<close>

subsection \<open>Tensors, masks, errors\<close>

datatype error = IndexError | RuntimeError | TypeError | ValueError

text \<open>A tensor element: a number, or NaN. Sums and products with NaN are NaN, also the
  product of zero and NaN.\<close>

datatype scalar = NaN | Num real

fun add :: "scalar \<Rightarrow> scalar \<Rightarrow> scalar" where
  "add (Num a) (Num c) = Num (a + c)"
| "add _ _ = NaN"

fun mul :: "scalar \<Rightarrow> scalar \<Rightarrow> scalar" where
  "mul (Num a) (Num c) = Num (a * c)"
| "mul _ _ = NaN"

fun total :: "scalar list \<Rightarrow> scalar" where
  "total [] = Num 0"
| "total (v # vs) = add v (total vs)"

record tensor =
  shape :: "nat list"
  el :: "nat list \<Rightarrow> scalar"

text \<open>A two-dimensional attention mask: \<open>blocked M i j\<close> forbids position \<open>i\<close> to attend to
  position \<open>j\<close>.\<close>

record mask =
  mshape :: "nat \<times> nat"
  blocked :: "nat \<Rightarrow> nat \<Rightarrow> bool"

text \<open>The caller's padding mask of shape (batch, time): \<open>padded P b t\<close> marks frame \<open>t\<close> of
  batch entry \<open>b\<close> as padding.\<close>

record pad_mask =
  pshape :: "nat \<times> nat"
  padded :: "nat \<Rightarrow> nat \<Rightarrow> bool"

type_synonym tmodule = "tensor \<Rightarrow> error + tensor"

type_synonym encoder_fn =
  "tensor \<Rightarrow> mask option \<Rightarrow> pad_mask option \<Rightarrow> error + (tensor \<times> tensor list)"

subsection \<open>Activations of the tensor framework\<close>

text \<open>An activation class is instantiated by a call without arguments
  (\<^verbatim>\<open>output_activation()\<close>); the instance applies a scalar function to every element.
  The rectified-linear functions of the tensor framework map NaN to NaN.\<close>

definition elementwise :: "(scalar \<Rightarrow> scalar) \<Rightarrow> tmodule" where
  "elementwise g x = Inr (x\<lparr>el := (\<lambda>idx. g (el x idx))\<rparr>)"

fun relu :: "scalar \<Rightarrow> scalar" where
  "relu NaN = NaN"
| "relu (Num v) = Num (max 0 v)"

fun leaky_relu :: "scalar \<Rightarrow> scalar" where
  "leaky_relu NaN = NaN"
| "leaky_relu (Num v) = Num (if 0 \<le> v then v else v / 100)"

definition ReLU :: "unit \<Rightarrow> tmodule" where
  "ReLU u = elementwise relu"

definition LeakyReLU :: "unit \<Rightarrow> tmodule" where
  "LeakyReLU u = elementwise leaky_relu"

subsection \<open>Collaborators that live outside the source file\<close>

text \<open>Modelled from the spec: \<^verbatim>\<open>get_lookahead_mask\<close> of
  \<^verbatim>\<open>speechbrain.lobes.models.transformer.Transformer\<close> is missing. The spec gives
  \<^verbatim>\<open>get_lookahead_mask(tensor) -> square mask\<close> sized to the tensor's time dimension
  (dimension 1), forbidding position \<open>i\<close> to attend to any position \<open>j > i\<close>. Reading
  dimension 1 of a tensor with fewer than two dimensions raises.\<close>

definition get_lookahead_mask :: "tensor \<Rightarrow> error + mask" where
  "get_lookahead_mask padded_input =
     (if length (shape padded_input) < 2 then Inl IndexError
      else let seq_len = shape padded_input ! 1
           in Inr \<lparr>mshape = (seq_len, seq_len), blocked = (\<lambda>i j. i < j)\<rparr>)"

text \<open>Modelled from the spec: \<^verbatim>\<open>Linear\<close> of \<^verbatim>\<open>speechbrain.nnet.linear\<close> is missing. The
  spec gives a linear-projection collaborator constructible with (output width, input
  width, bias flag) and callable as a function from input tensor to projected tensor.
  The projection acts on the last dimension; a width other than the configured input
  width is a failure of the tensor framework. The initial weights and bias come from the
  framework's initialisation and are parameters here.\<close>

record linear =
  n_neurons :: nat
  lin_input_size :: nat
  bias :: "(nat \<Rightarrow> real) option"
  w :: "nat \<Rightarrow> nat \<Rightarrow> real"

text \<open>Modelled from the spec: the constructor of \<^verbatim>\<open>Linear\<close> takes the output width, the
  input width and the bias flag; without the flag the layer has no bias.\<close>

definition Linear_init ::
  "(nat \<Rightarrow> nat \<Rightarrow> real) \<Rightarrow> (nat \<Rightarrow> real) \<Rightarrow> nat \<Rightarrow> nat \<Rightarrow> bool \<Rightarrow> linear" where
  "Linear_init w0 b0 n_out n_in use_bias =
     \<lparr>n_neurons = n_out, lin_input_size = n_in,
      bias = (if use_bias then Some b0 else None), w = w0\<rparr>"

text \<open>Modelled from the spec: calling a \<^verbatim>\<open>Linear\<close> layer projects the last dimension
  from the input width to the output width; a tensor of another width is rejected.\<close>

definition Linear_forward :: "linear \<Rightarrow> tmodule" where
  "Linear_forward L x =
     (if shape x = [] \<or> last (shape x) \<noteq> lin_input_size L then Inl RuntimeError
      else Inr \<lparr>shape = butlast (shape x) @ [n_neurons L],
                el = (\<lambda>idx.
                   add (total (map (\<lambda>f. mul (Num (w L (last idx) f))
                                              (el x (butlast idx @ [f])))
                                   [0..<lin_input_size L]))
                       (case bias L of None \<Rightarrow> Num 0 | Some b \<Rightarrow> Num (b (last idx))))\<rparr>)"

text \<open>Modelled from the spec: the base class \<^verbatim>\<open>TransformerInterface\<close> is missing. The spec
  gives a constructor accepting (head count, input width, encoder-layer count,
  decoder-layer count, feed-forward width, dropout, activation, positional-encoding flag)
  and an \<^verbatim>\<open>encoder\<close> sub-component callable as
  \<^verbatim>\<open>encoder(src, src_mask, src_key_padding_mask) -> (output, attention_diagnostics)\<close>.
  How the interface builds the encoder from its arguments is the parameter \<open>mk\<close>.\<close>

record interface_args =
  nhead :: nat
  input_size :: nat
  num_encoder_layers :: nat
  num_decoder_layers :: nat
  d_ffn :: nat
  dropout :: real
  activation :: "unit \<Rightarrow> tmodule"
  positional_encoding :: bool

record TransformerInterface =
  args :: interface_args
  encoder :: encoder_fn

text \<open>Modelled from the spec: the constructor of \<^verbatim>\<open>TransformerInterface\<close> keeps its
  arguments and builds the encoder from them.\<close>

definition TransformerInterface_init ::
  "(interface_args \<Rightarrow> encoder_fn) \<Rightarrow> interface_args \<Rightarrow> TransformerInterface" where
  "TransformerInterface_init mk a = \<lparr>args = a, encoder = mk a\<rparr>"

subsection \<open>The class of the source file\<close>

text \<open>The attribute \<^verbatim>\<open>attn_mask\<close> does not exist before the first call of \<^verbatim>\<open>forward\<close>
  (\<open>None\<close>); afterwards it holds \<^verbatim>\<open>None\<close> (\<open>Some None\<close>) or a mask.\<close>

record CNNTransformerSE = TransformerInterface +
  custom_emb_module :: "tmodule option"
  causal :: bool
  output_layer :: linear
  output_activation :: tmodule
  attn_mask :: "mask option option"

definition CNNTransformerSE_init ::
  "(interface_args \<Rightarrow> encoder_fn) \<Rightarrow> (nat \<Rightarrow> nat \<Rightarrow> real) \<Rightarrow> (nat \<Rightarrow> real) \<Rightarrow>
   nat \<Rightarrow> nat \<Rightarrow> (unit \<Rightarrow> tmodule) \<Rightarrow> nat \<Rightarrow> nat \<Rightarrow> nat \<Rightarrow> real \<Rightarrow> (unit \<Rightarrow> tmodule) \<Rightarrow>
   bool \<Rightarrow> tmodule option \<Rightarrow> CNNTransformerSE" where
  "CNNTransformerSE_init mk w0 b0
     output_size input_size' output_activation' nhead' num_layers d_ffn' dropout'
     activation' causal' custom_emb_module' =
     (let super = TransformerInterface_init mk
            \<lparr>nhead = nhead', input_size = input_size',
             num_encoder_layers = num_layers, num_decoder_layers = 0,
             d_ffn = d_ffn', dropout = dropout', activation = activation',
             positional_encoding = False\<rparr>
      in \<lparr>args = args super, encoder = encoder super,
          custom_emb_module = custom_emb_module',
          causal = causal',
          output_layer = Linear_init w0 b0 output_size input_size' False,
          output_activation = output_activation' (),
          attn_mask = None\<rparr>)"

text \<open>The constructor with every optional argument at its default.\<close>

definition CNNTransformerSE_default ::
  "(interface_args \<Rightarrow> encoder_fn) \<Rightarrow> (nat \<Rightarrow> nat \<Rightarrow> real) \<Rightarrow> (nat \<Rightarrow> real) \<Rightarrow>
   nat \<Rightarrow> nat \<Rightarrow> CNNTransformerSE" where
  "CNNTransformerSE_default mk w0 b0 output_size input_size' =
     CNNTransformerSE_init mk w0 b0 output_size input_size'
       ReLU 8 8 512 (1 / 10) LeakyReLU True None"

definition forward ::
  "CNNTransformerSE \<Rightarrow> tensor \<Rightarrow> pad_mask option \<Rightarrow> CNNTransformerSE \<times> (error + tensor)" where
  "forward self x src_key_padding_mask =
     (case (if causal self then map_sum id Some (get_lookahead_mask x) else Inr None) of
        Inl e \<Rightarrow> (self, Inl e)
      | Inr m \<Rightarrow>
          (let self = self\<lparr>attn_mask := Some m\<rparr> in
           (self,
            case (case custom_emb_module self of None \<Rightarrow> Inr x | Some emb \<Rightarrow> emb x) of
              Inl e \<Rightarrow> Inl e
            | Inr x \<Rightarrow>
                (case encoder self x (the (attn_mask self)) src_key_padding_mask of
                   Inl e \<Rightarrow> Inl e
                 | Inr (encoder_output, _) \<Rightarrow>
                     (case Linear_forward (output_layer self) encoder_output of
                        Inl e \<Rightarrow> Inl e
                      | Inr output \<Rightarrow> output_activation self output)))))"

subsection \<open>The pipeline in the words of the specification\<close>

definition and_then :: "error + 'a \<Rightarrow> ('a \<Rightarrow> error + 'b) \<Rightarrow> error + 'b" where
  "and_then r k = (case r of Inl e \<Rightarrow> Inl e | Inr v \<Rightarrow> k v)"

text \<open>Whether a call returned normally.\<close>

definition returns :: "error + 'a \<Rightarrow> bool" where
  "returns r = (case r of Inl e \<Rightarrow> False | Inr v \<Rightarrow> True)"

text \<open>Step 1: if causal, derive a lookahead mask; otherwise no attention mask.\<close>

definition step_mask :: "CNNTransformerSE \<Rightarrow> tensor \<Rightarrow> error + mask option" where
  "step_mask self x =
     (if causal self then and_then (get_lookahead_mask x) (\<lambda>M. Inr (Some M)) else Inr None)"

text \<open>Step 2: if a custom embedding module is configured, apply it to \<open>x\<close>.\<close>

definition step_embed :: "CNNTransformerSE \<Rightarrow> tensor \<Rightarrow> error + tensor" where
  "step_embed self x =
     (case custom_emb_module self of None \<Rightarrow> Inr x | Some emb \<Rightarrow> emb x)"

text \<open>Step 3: run the encoder with the input, the attention mask and the padding mask;
  take only the primary output.\<close>

definition step_encode ::
  "CNNTransformerSE \<Rightarrow> tensor \<Rightarrow> mask option \<Rightarrow> pad_mask option \<Rightarrow> error + tensor" where
  "step_encode self x m p = and_then (encoder self x m p) (\<lambda>r. Inr (fst r))"

text \<open>Step 4: apply the linear projection. Step 5: apply the output activation.\<close>

definition step_project :: "CNNTransformerSE \<Rightarrow> tensor \<Rightarrow> error + tensor" where
  "step_project self y = Linear_forward (output_layer self) y"

definition step_activate :: "CNNTransformerSE \<Rightarrow> tensor \<Rightarrow> error + tensor" where
  "step_activate self z = output_activation self z"

definition forward_pipeline ::
  "CNNTransformerSE \<Rightarrow> tensor \<Rightarrow> pad_mask option \<Rightarrow> error + tensor" where
  "forward_pipeline self x p =
     and_then (step_mask self x) (\<lambda>m.
     and_then (step_embed self x) (\<lambda>x'.
     and_then (step_encode self x' m p) (\<lambda>y.
     and_then (step_project self y) (\<lambda>z.
     step_activate self z))))"

subsection \<open>Contracts of the collaborators\<close>




text \<open>A tensor without NaN, and a module that introduces none.\<close>

definition nan_free :: "tensor \<Rightarrow> bool" where
  "nan_free x \<longleftrightarrow> (\<forall>idx. el x idx \<noteq> NaN)"


definition keeps_shape :: "tmodule \<Rightarrow> bool" where
  "keeps_shape g \<longleftrightarrow> (\<forall>x y. g x = Inr y \<longrightarrow> shape y = shape x)"


definition encoder_keeps_shape :: "encoder_fn \<Rightarrow> bool" where
  "encoder_keeps_shape enc \<longleftrightarrow>
     (\<forall>src m p y d. enc src m p = Inr (y, d) \<longrightarrow> shape y = shape src)"

subsection \<open>A stand-in encoder and small modules for concrete runs\<close>

text \<open>The encoder stack built by \<^verbatim>\<open>TransformerInterface\<close> is missing, and the
  specification gives its call contract only, not its attention mechanics. The general
  theorems below take the encoder as a parameter. Concrete runs need some encoder: the
  stand-in here is not the encoder of the repository but the simplest function with the
  same call contract. Position \<open>i\<close> attends with equal weight to every position that
  neither the attention mask nor the padding mask excludes, and with weight zero to the
  others; a position with no permitted position at all gets the weight NaN, as a
  softmax over excluded scores only does. It rejects an input that is not
  three-dimensional or not of the model width, and masks of the wrong size. Its numbers
  are its own; what it shares with the real encoder is which frames reach which.\<close>

definition permitted :: "mask option \<Rightarrow> pad_mask option \<Rightarrow> nat \<Rightarrow> nat \<Rightarrow> nat \<Rightarrow> bool" where
  "permitted src_mask kpm b i j \<longleftrightarrow>
     (case src_mask of None \<Rightarrow> True | Some M \<Rightarrow> \<not> blocked M i j) \<and>
     (case kpm of None \<Rightarrow> True | Some P \<Rightarrow> \<not> padded P b j)"

definition attention_weight ::
  "mask option \<Rightarrow> pad_mask option \<Rightarrow> nat \<Rightarrow> nat \<Rightarrow> nat \<Rightarrow> nat \<Rightarrow> scalar" where
  "attention_weight src_mask kpm T b i j =
     (let n = length (filter (permitted src_mask kpm b i) [0..<T])
      in if n = 0 then NaN
         else if permitted src_mask kpm b i j then Num (1 / real n)
         else Num 0)"

definition uniform_attention :: "nat \<Rightarrow> encoder_fn" where
  "uniform_attention d_model src src_mask kpm =
     (case shape src of
        [B, T, D] \<Rightarrow>
          if D \<noteq> d_model then Inl RuntimeError
          else if (case src_mask of None \<Rightarrow> False | Some M \<Rightarrow> mshape M \<noteq> (T, T))
            then Inl RuntimeError
          else if (case kpm of None \<Rightarrow> False | Some P \<Rightarrow> pshape P \<noteq> (B, T))
            then Inl RuntimeError
          else Inr
            (\<lparr>shape = [B, T, D],
              el = (\<lambda>idx. total (map
                      (\<lambda>j. mul (attention_weight src_mask kpm T (idx ! 0) (idx ! 1) j)
                                (el src [idx ! 0, j, idx ! 2]))
                      [0..<T]))\<rparr>,
             [\<lparr>shape = [B, T, T],
               el = (\<lambda>idx. attention_weight src_mask kpm T (idx ! 0) (idx ! 1) (idx ! 2))\<rparr>])
      | _ \<Rightarrow> Inl RuntimeError)"

definition mk_uniform_attention :: "interface_args \<Rightarrow> encoder_fn" where
  "mk_uniform_attention a = uniform_attention (input_size a)"

text \<open>Embedding modules: one that adds the following frame to each frame, as a
  convolution over time with a centred kernel does; one that adds the preceding frame,
  as a causal convolution does; and one that keeps every second frame, as a strided
  convolution does.\<close>

definition next_frame_emb :: tmodule where
  "next_frame_emb x =
     (case shape x of
        [B, T, D] \<Rightarrow>
          Inr (x\<lparr>el := (\<lambda>idx. add (el x idx)
                 (if Suc (idx ! 1) < T then el x [idx ! 0, Suc (idx ! 1), idx ! 2]
                  else Num 0))\<rparr>)
      | _ \<Rightarrow> Inl RuntimeError)"

definition prev_frame_emb :: tmodule where
  "prev_frame_emb x =
     (case shape x of
        [B, T, D] \<Rightarrow>
          Inr (x\<lparr>el := (\<lambda>idx. add (el x idx)
                 (if 0 < idx ! 1 then el x [idx ! 0, idx ! 1 - 1, idx ! 2] else Num 0))\<rparr>)
      | _ \<Rightarrow> Inl RuntimeError)"

definition subsample_emb :: tmodule where
  "subsample_emb x =
     (case shape x of
        [B, T, D] \<Rightarrow>
          Inr \<lparr>shape = [B, (T + 1) div 2, D],
               el = (\<lambda>idx. el x [idx ! 0, 2 * (idx ! 1), idx ! 2])\<rparr>
      | _ \<Rightarrow> Inl RuntimeError)"

text \<open>One batch entry of two frames with one feature each; one batch entry of two frames
  with four features each, the first frame \<open>(1, 2, 3, 4)\<close> and the second \<open>(c, 0, 0, 0)\<close>;
  a tensor filled with one number; a tensor of zeros; the tensor \<open>x\<close> with one element
  replaced; the padding mask that marks every frame.\<close>

definition two_frames :: "real \<Rightarrow> real \<Rightarrow> tensor" where
  "two_frames a c =
     \<lparr>shape = [1, 2, 1],
      el = (\<lambda>idx. if idx = [0, 0, 0] then Num a else if idx = [0, 1, 0] then Num c
                  else Num 0)\<rparr>"

definition wide_frames :: "real \<Rightarrow> tensor" where
  "wide_frames c =
     \<lparr>shape = [1, 2, 4],
      el = (\<lambda>idx. if idx = [0, 0, 0] then Num 1 else if idx = [0, 0, 1] then Num 2
                  else if idx = [0, 0, 2] then Num 3 else if idx = [0, 0, 3] then Num 4
                  else if idx = [0, 1, 0] then Num c else Num 0)\<rparr>"

definition full :: "nat list \<Rightarrow> real \<Rightarrow> tensor" where
  "full s v = \<lparr>shape = s, el = (\<lambda>idx. Num v)\<rparr>"

definition zeros :: "nat list \<Rightarrow> tensor" where
  "zeros s = \<lparr>shape = s, el = (\<lambda>idx. Num 0)\<rparr>"

definition set_el :: "tensor \<Rightarrow> nat list \<Rightarrow> scalar \<Rightarrow> tensor" where
  "set_el x idx v = x\<lparr>el := (el x)(idx := v)\<rparr>"

definition all_padded :: "nat \<Rightarrow> nat \<Rightarrow> pad_mask" where
  "all_padded B T = \<lparr>pshape = (B, T), padded = (\<lambda>b t. True)\<rparr>"

text \<open>A network of width one with one head over the stand-in encoder (the head count
  has to divide the width), with weight one and the default activations; and a network
  of width four with two heads and one layer, whose output activation is the leaky
  rectified-linear one. The flag and the embedding module are left open.\<close>

definition tiny_net :: "bool \<Rightarrow> tmodule option \<Rightarrow> CNNTransformerSE" where
  "tiny_net c emb =
     CNNTransformerSE_init mk_uniform_attention (\<lambda>k f. 1) (\<lambda>k. 0)
       1 1 ReLU 1 8 512 (1 / 10) LeakyReLU c emb"

definition wide_net :: "bool \<Rightarrow> tmodule option \<Rightarrow> CNNTransformerSE" where
  "wide_net c emb =
     CNNTransformerSE_init mk_uniform_attention (\<lambda>k f. 1) (\<lambda>k. 0)
       1 4 LeakyReLU 2 1 512 (1 / 10) LeakyReLU c emb"

section \<open>Properties\<close>

subsection \<open>Shared lemmas\<close>

lemma and_then_simps:
  "and_then (Inl e) k = Inl e" "and_then (Inr v) k = k v"
  by (simp_all add: and_then_def)

lemma forward_unfold:
  "forward self x p =
     (case step_mask self x of
        Inl e \<Rightarrow> (self, Inl e)
      | Inr m \<Rightarrow>
          (self\<lparr>attn_mask := Some m\<rparr>,
           and_then (step_embed self x) (\<lambda>x'.
           and_then (step_encode self x' m p) (\<lambda>y.
           and_then (step_project self y) (step_activate self)))))"
  by (auto simp: forward_def step_mask_def step_embed_def step_encode_def step_project_def
      step_activate_def and_then_def Let_def map_sum_def
      split: sum.splits option.splits prod.splits)

lemma forward_snd: "snd (forward self x p) = forward_pipeline self x p"
  by (simp add: forward_unfold forward_pipeline_def and_then_def split: sum.splits)

lemma forward_returns:
  assumes "snd (forward self x p) = Inr out"
  obtains m x' y z where
    "step_mask self x = Inr m" "step_embed self x = Inr x'"
    "step_encode self x' m p = Inr y" "step_project self y = Inr z"
    "step_activate self z = Inr out"
  using assms
  by (auto simp: forward_snd forward_pipeline_def and_then_def split: sum.splits)


lemma get_lookahead_mask_Inr:
  "get_lookahead_mask x = Inr M \<longleftrightarrow>
     2 \<le> length (shape x) \<and> M = \<lparr>mshape = (shape x ! 1, shape x ! 1), blocked = (\<lambda>i j. i < j)\<rparr>"
  by (auto simp: get_lookahead_mask_def Let_def)

lemma Linear_forward_shape:
  "Linear_forward L x = Inr y \<Longrightarrow> shape x = s @ [n] \<Longrightarrow> shape y = s @ [n_neurons L]"
  by (auto simp: Linear_forward_def split: if_splits)




lemma elementwise_keeps_shape: "keeps_shape (elementwise g)"
  by (auto simp: keeps_shape_def elementwise_def)

lemma uniform_attention_keeps_shape: "encoder_keeps_shape (uniform_attention n)"
  by (auto simp: encoder_keeps_shape_def uniform_attention_def split: list.splits if_splits)






lemmas run_defs = tiny_net_def wide_net_def CNNTransformerSE_init_def
  CNNTransformerSE_default_def TransformerInterface_init_def mk_uniform_attention_def
  Linear_init_def

lemmas eval_defs = forward_def uniform_attention_def get_lookahead_mask_def Linear_forward_def
  ReLU_def LeakyReLU_def elementwise_def two_frames_def wide_frames_def full_def zeros_def
  all_padded_def attention_weight_def permitted_def set_el_def next_frame_emb_def
  prev_frame_emb_def

lemma forward_shape_general:
  assumes emb: "custom_emb_module self = None"
      and enc: "encoder_keeps_shape (encoder self)"
      and act: "keeps_shape (output_activation self)"
      and x: "shape x = [B, T, F]"
      and run: "snd (forward self x p) = Inr out"
    shows "shape out = [B, T, n_neurons (output_layer self)]"
proof -
  from run obtain m x' y z where
    e: "step_embed self x = Inr x'" and
    s: "step_encode self x' m p = Inr y" and
    l: "step_project self y = Inr z" and
    a: "step_activate self z = Inr out"
    by (rule forward_returns)
  from e emb have "x' = x" by (simp add: step_embed_def)
  with s obtain d where "encoder self x m p = Inr (y, d)"
    by (auto simp: step_encode_def and_then_def split: sum.splits)
  with enc have "shape y = shape x"
    unfolding encoder_keeps_shape_def by blast
  with x have "shape y = [B, T] @ [F]" by simp
  with l have "shape z = [B, T] @ [n_neurons (output_layer self)]"
    unfolding step_project_def by (rule Linear_forward_shape)
  with a act show ?thesis
    by (simp add: step_activate_def keeps_shape_def)
qed






lemma subsample_two_frames:
  "subsample_emb (two_frames a c) = Inr \<lparr>shape = [1, 1, 1], el = (\<lambda>idx. el (two_frames a c) [idx ! 0, 2 * (idx ! 1), idx ! 2])\<rparr>"
  by (simp add: subsample_emb_def two_frames_def)

subsection \<open>Shape and range of the output\<close>

text \<open>
  Claim C1. Without a custom embedding module, every input of shape
  \<open>(B, T, input_size)\<close> that \<^verbatim>\<open>forward\<close> accepts yields a tensor of shape
  \<open>(B, T, output_size)\<close>, whatever \<^verbatim>\<open>nhead\<close> and \<^verbatim>\<open>num_layers\<close> are: a second network
  that differs in these two values only returns the same shape. The encoder the
  interface builds keeps the shape of its input, and so does the output activation.
\<close>

theorem forward_output_shape:
  assumes enc: "\<forall>a. encoder_keeps_shape (mk a)"
      and act: "keeps_shape (oa ())"
      and x: "shape x = [B, T, n_in]"
      and run: "snd (forward (CNNTransformerSE_init mk w0 b0 n_out n_in oa nh nl dff dr ia c None) x p)
                = Inr out"
    shows "shape out = [B, T, n_out] \<and>
           (\<forall>nh' nl' out'.
              snd (forward (CNNTransformerSE_init mk w0 b0 n_out n_in oa nh' nl' dff dr ia c None) x p)
                = Inr out' \<longrightarrow> shape out' = shape out)"
proof -
  have *: "shape r = [B, T, n_out]"
    if "snd (forward (CNNTransformerSE_init mk w0 b0 n_out n_in oa h l dff dr ia c None) x p) = Inr r"
    for h l r
    using forward_shape_general [OF _ _ _ x that] enc act
    by (simp add: CNNTransformerSE_init_def TransformerInterface_init_def Linear_init_def Let_def)
  from * [OF run] * show ?thesis by simp
qed

text \<open>The documented example: input of shape \<open>[8, 120, 256]\<close>, \<^verbatim>\<open>input_size=256\<close>,
  \<^verbatim>\<open>output_size=257\<close>, every other argument at its default, and the same with four heads
  and two layers.\<close>

theorem forward_output_shape_witness:
  "shape (zeros [8, 120, 256]) = [8, 120, 256] \<and>
   returns (snd (forward (CNNTransformerSE_default mk_uniform_attention (\<lambda>k f. 1) (\<lambda>k. 0) 257 256)
                  (zeros [8, 120, 256]) None)) \<and>
   shape (projr (snd (forward (CNNTransformerSE_default mk_uniform_attention (\<lambda>k f. 1) (\<lambda>k. 0) 257 256)
                  (zeros [8, 120, 256]) None))) = [8, 120, 257] \<and>
   shape (projr (snd (forward
            (CNNTransformerSE_init mk_uniform_attention (\<lambda>k f. 1) (\<lambda>k. 0) 257 256
               ReLU 4 2 512 (1 / 10) LeakyReLU True None)
            (zeros [8, 120, 256]) None))) = [8, 120, 257]"
proof -
  let ?x = "zeros [8, 120, 256]"
  let ?N = "\<lambda>h l. CNNTransformerSE_init mk_uniform_attention (\<lambda>k f. 1) (\<lambda>k. 0) 257 256
               ReLU h l 512 (1 / 10) LeakyReLU True None"
  have enc: "\<forall>a. encoder_keeps_shape (mk_uniform_attention a)"
    by (simp add: mk_uniform_attention_def uniform_attention_keeps_shape)
  have act: "keeps_shape (ReLU ())"
    by (simp add: ReLU_def elementwise_keeps_shape)
  have x: "shape ?x = [8, 120, 256]" by (simp add: zeros_def)
  obtain out where run: "snd (forward (?N 8 8) ?x None) = Inr out"
    by (simp add: run_defs eval_defs Let_def)
  obtain out' where run': "snd (forward (?N 4 2) ?x None) = Inr out'"
    by (simp add: run_defs eval_defs Let_def)
  from forward_output_shape [OF enc act x run]
  have "shape out = [8, 120, 257]" and "shape out' = shape out"
    using run' by blast+
  with x run run' show ?thesis
    by (simp add: CNNTransformerSE_default_def returns_def)
qed

text \<open>
  Claim C5, amended. Whatever \<^verbatim>\<open>forward\<close> returns is a value of the output activation.
  When the activation applies a scalar function to every element, every element of the
  output lies in the range of that function; with the default rectified-linear
  activation every element is NaN or a non-negative number.
\<close>

theorem output_in_activation_range:
  assumes run: "snd (forward self x p) = Inr out"
  shows "(\<exists>z. output_activation self z = Inr out) \<and>
         (\<forall>g. output_activation self = elementwise g \<longrightarrow> el out idx \<in> range g) \<and>
         (output_activation self = ReLU () \<longrightarrow>
            el out idx = NaN \<or> (\<exists>v. el out idx = Num v \<and> 0 \<le> v))"
proof -
  from run obtain z where a: "output_activation self z = Inr out"
    by (auto elim: forward_returns simp: step_activate_def)
  have r: "relu u = NaN \<or> (\<exists>v. relu u = Num v \<and> 0 \<le> v)" for u
    by (cases u) simp_all
  have "el out idx = NaN \<or> (\<exists>v. el out idx = Num v \<and> 0 \<le> v)"
    if "output_activation self = ReLU ()"
  proof -
    from a that have "el out idx = relu (el z idx)"
      by (auto simp: ReLU_def elementwise_def)
    with r [of "el z idx"] show ?thesis by simp
  qed
  moreover have "el out idx \<in> range g" if "output_activation self = elementwise g" for g
    using a that by (auto simp: elementwise_def)
  ultimately show ?thesis using a by blast
qed

text \<open>The network with every default, of width eight, on an input filled with \<open>-4\<close>.\<close>

theorem output_in_activation_range_witness:
  "output_activation (CNNTransformerSE_default mk_uniform_attention (\<lambda>k f. 1) (\<lambda>k. 0) 1 8)
     = ReLU () \<and>
   returns (snd (forward (CNNTransformerSE_default mk_uniform_attention (\<lambda>k f. 1) (\<lambda>k. 0) 1 8)
                   (full [1, 2, 8] (- 4)) None)) \<and>
   el (projr (snd (forward (CNNTransformerSE_default mk_uniform_attention (\<lambda>k f. 1) (\<lambda>k. 0) 1 8)
                   (full [1, 2, 8] (- 4)) None))) [0, 0, 0] = Num 0 \<and>
   el (projr (snd (forward (CNNTransformerSE_default mk_uniform_attention (\<lambda>k f. 1) (\<lambda>k. 0) 1 8)
                   (full [1, 2, 8] (- 4)) None))) [0, 0, 0] \<in> range relu"
proof -
  let ?N = "CNNTransformerSE_default mk_uniform_attention (\<lambda>k f. 1) (\<lambda>k. 0) 1 8"
  have act: "output_activation ?N = ReLU ()" by (simp add: run_defs Let_def)
  obtain out where run: "snd (forward ?N (full [1, 2, 8] (- 4)) None) = Inr out"
    by (simp add: run_defs eval_defs Let_def)
  from output_in_activation_range [OF run, of "[0, 0, 0]"] act
  have rng: "el out [0, 0, 0] \<in> range relu"
    by (simp add: ReLU_def)
  from run have "el out [0, 0, 0] = Num 0"
    by (auto simp: run_defs eval_defs Let_def eval_nat_numeral)
  with rng act run show ?thesis by (simp add: returns_def)
qed

text \<open>
  Claim C5 as stated fails: an element of the output need not be non-negative, it can be
  NaN. The rectified-linear activation passes NaN on, and NaN arises inside the
  encoder on an input of finite numbers when the padding mask marks every frame.
\<close>

theorem output_nan_counterexample:
  "output_activation (CNNTransformerSE_default mk_uniform_attention (\<lambda>k f. 1) (\<lambda>k. 0) 1 8)
     = ReLU () \<and>
   nan_free (full [1, 2, 8] 1) \<and>
   pshape (all_padded 1 2) = (1, 2) \<and>
   returns (snd (forward (CNNTransformerSE_default mk_uniform_attention (\<lambda>k f. 1) (\<lambda>k. 0) 1 8)
                   (full [1, 2, 8] 1) (Some (all_padded 1 2)))) \<and>
   el (projr (snd (forward (CNNTransformerSE_default mk_uniform_attention (\<lambda>k f. 1) (\<lambda>k. 0) 1 8)
                   (full [1, 2, 8] 1) (Some (all_padded 1 2))))) [0, 0, 0] = NaN"
  by (simp add: run_defs eval_defs nan_free_def returns_def Let_def eval_nat_numeral)

subsection \<open>Causality\<close>





text \<open>
  Claim C10. In a causal network with a custom embedding module, the mask is derived from
  the raw input \<open>x\<close> before the embedding module runs: the attribute and the encoder get
  the square lookahead mask of the time dimension of \<open>x\<close>, while the encoder's input is
  the embedded tensor \<open>x'\<close>. When the embedding module changes the time dimension, that
  mask has not the size of the encoder input's time dimension and is not the lookahead
  mask of the encoder's input.
\<close>

theorem mask_from_raw_input:
  assumes c: "causal self"
      and emb: "custom_emb_module self = Some emb"
      and x: "2 \<le> length (shape x)"
      and ex: "emb x = Inr x'"
    shows "\<exists>M. get_lookahead_mask x = Inr M \<and> mshape M = (shape x ! 1, shape x ! 1) \<and>
             fst (forward self x p) = self\<lparr>attn_mask := Some (Some M)\<rparr> \<and>
             snd (forward self x p) =
               and_then (encoder self x' (Some M) p) (\<lambda>r.
               and_then (Linear_forward (output_layer self) (fst r)) (output_activation self)) \<and>
             (shape x' ! 1 \<noteq> shape x ! 1 \<longrightarrow>
                mshape M \<noteq> (shape x' ! 1, shape x' ! 1) \<and> get_lookahead_mask x' \<noteq> Inr M)"
  using assms
  by (auto simp: forward_unfold step_mask_def step_embed_def step_encode_def step_project_def
      step_activate_def [abs_def] get_lookahead_mask_def and_then_def Let_def split: sum.splits)

text \<open>An embedding module that halves the time dimension: the mask is 2 by 2, the
  encoder's input has one frame, and the stand-in encoder rejects the pair.\<close>

theorem mask_from_raw_input_witness:
  "causal (tiny_net True (Some subsample_emb)) \<and>
   custom_emb_module (tiny_net True (Some subsample_emb)) = Some subsample_emb \<and>
   shape (two_frames 1 5) = [1, 2, 1] \<and>
   shape (projr (subsample_emb (two_frames 1 5))) = [1, 1, 1] \<and>
   attn_mask (fst (forward (tiny_net True (Some subsample_emb)) (two_frames 1 5) None)) =
     Some (Some \<lparr>mshape = (2, 2), blocked = (\<lambda>i j. i < j)\<rparr>) \<and>
   get_lookahead_mask (projr (subsample_emb (two_frames 1 5))) =
     Inr \<lparr>mshape = (1, 1), blocked = (\<lambda>i j. i < j)\<rparr> \<and>
   snd (forward (tiny_net True (Some subsample_emb)) (two_frames 1 5) None) = Inl RuntimeError"
proof -
  let ?N = "tiny_net True (Some subsample_emb)"
  let ?x = "two_frames 1 5"
  let ?x' = "\<lparr>shape = [1, 1, 1], el = (\<lambda>idx. el ?x [idx ! 0, 2 * (idx ! 1), idx ! 2])\<rparr>"
  have c: "causal ?N" and emb: "custom_emb_module ?N = Some subsample_emb"
    by (simp_all add: run_defs Let_def)
  have x: "2 \<le> length (shape ?x)" and sx: "shape ?x = [1, 2, 1]" by (simp_all add: two_frames_def)
  have ex: "subsample_emb ?x = Inr ?x'" by (rule subsample_two_frames)
  from mask_from_raw_input [OF c emb x ex, of None]
  obtain M where M: "get_lookahead_mask ?x = Inr M"
    and st: "fst (forward ?N ?x None) = ?N\<lparr>attn_mask := Some (Some M)\<rparr>"
    and r: "snd (forward ?N ?x None) =
               and_then (encoder ?N ?x' (Some M) None) (\<lambda>r.
               and_then (Linear_forward (output_layer ?N) (fst r)) (output_activation ?N))"
    by blast
  from M sx have Meq: "M = \<lparr>mshape = (2, 2), blocked = (\<lambda>i j. i < j)\<rparr>"
    by (simp add: get_lookahead_mask_Inr)
  have "encoder ?N ?x' (Some M) None = Inl RuntimeError"
    by (simp add: Meq run_defs uniform_attention_def Let_def)
  with r have "snd (forward ?N ?x None) = Inl RuntimeError"
    by (simp add: and_then_def)
  with c emb sx st Meq ex show ?thesis
    by (simp add: get_lookahead_mask_def)
qed

subsection \<open>The pipeline\<close>

text \<open>
  Claim C3. \<^verbatim>\<open>forward\<close> is the fixed pipeline: the mask step, then the optional embedding,
  then the encoder on the embedded input with the attention mask and the padding mask,
  of whose result only the primary output is kept, then the projection, then the output
  activation, whose result is returned. The first step that raises ends the call. The
  object afterwards is the object before with the attribute \<^verbatim>\<open>attn_mask\<close> set by the
  mask step.
\<close>

theorem forward_is_pipeline:
  "forward self x p =
     ((case step_mask self x of Inl e \<Rightarrow> self | Inr m \<Rightarrow> self\<lparr>attn_mask := Some m\<rparr>),
      forward_pipeline self x p)"
  by (simp add: forward_unfold forward_pipeline_def and_then_def split: sum.splits)

text \<open>
  Claim C4. A network without custom embedding module returns what the same network
  with the identity as embedding module returns, and leaves the same object behind; its
  result is the pipeline with the raw input \<open>x\<close> passed to the encoder.
\<close>

theorem absent_embedding_is_identity:
  "snd (forward (self\<lparr>custom_emb_module := None\<rparr>) x p)
     = snd (forward (self\<lparr>custom_emb_module := Some Inr\<rparr>) x p)
   \<and> fst (forward (self\<lparr>custom_emb_module := None\<rparr>) x p)
     = (fst (forward (self\<lparr>custom_emb_module := Some Inr\<rparr>) x p))\<lparr>custom_emb_module := None\<rparr>
   \<and> snd (forward (self\<lparr>custom_emb_module := None\<rparr>) x p)
     = and_then (step_mask self x) (\<lambda>m.
       and_then (step_encode self x m p) (\<lambda>y.
       and_then (step_project self y) (step_activate self)))"
  by (simp add: forward_unfold step_mask_def step_embed_def step_encode_def step_project_def
      step_activate_def and_then_def split: sum.splits)

subsection \<open>State and errors\<close>

text \<open>
  Claim C8. A call of \<^verbatim>\<open>forward\<close> on an input with a time dimension (every
  three-dimensional input has one) leaves the object as it was, apart from the attribute
  \<^verbatim>\<open>attn_mask\<close>: that is set to the lookahead mask of the time dimension of the current
  input when the network is causal, and to \<^verbatim>\<open>None\<close> when it is not. The value the
  attribute had before plays no part: the call returns the same and leaves the same
  object behind whatever the attribute held. The interface arguments, the encoder, the
  flag, the embedding module, the projection and the output activation are unchanged.
\<close>

theorem forward_only_sets_attn_mask:
  assumes x: "2 \<le> length (shape x)"
  shows "fst (forward self x p) =
           self\<lparr>attn_mask := Some (if causal self
                                    then Some \<lparr>mshape = (shape x ! 1, shape x ! 1),
                                               blocked = (\<lambda>i j. i < j)\<rparr>
                                    else None)\<rparr>
         \<and> (causal self \<longrightarrow> get_lookahead_mask x =
               Inr \<lparr>mshape = (shape x ! 1, shape x ! 1), blocked = (\<lambda>i j. i < j)\<rparr>)
         \<and> forward (self\<lparr>attn_mask := old\<rparr>) x p = forward self x p
         \<and> args (fst (forward self x p)) = args self
         \<and> encoder (fst (forward self x p)) = encoder self
         \<and> causal (fst (forward self x p)) = causal self
         \<and> custom_emb_module (fst (forward self x p)) = custom_emb_module self
         \<and> output_layer (fst (forward self x p)) = output_layer self
         \<and> output_activation (fst (forward self x p)) = output_activation self"
  using x
  by (simp add: forward_unfold step_mask_def step_embed_def step_encode_def step_project_def
      step_activate_def [abs_def] get_lookahead_mask_def and_then_def Let_def)

text \<open>Two calls in a row on inputs of two and of three frames, and a call of a
  network that is not causal.\<close>

theorem forward_only_sets_attn_mask_witness:
  "2 \<le> length (shape (two_frames 1 5)) \<and>
   attn_mask (tiny_net True None) = None \<and>
   attn_mask (fst (forward (tiny_net True None) (two_frames 1 5) None)) =
     Some (Some \<lparr>mshape = (2, 2), blocked = (\<lambda>i j. i < j)\<rparr>) \<and>
   attn_mask (fst (forward (fst (forward (tiny_net True None) (two_frames 1 5) None))
                     (zeros [1, 3, 1]) None)) =
     Some (Some \<lparr>mshape = (3, 3), blocked = (\<lambda>i j. i < j)\<rparr>) \<and>
   attn_mask (fst (forward (tiny_net False None) (two_frames 1 5) None)) = Some None"
proof -
  have x: "2 \<le> length (shape (two_frames 1 5))" by (simp add: two_frames_def)
  have z: "2 \<le> length (shape (zeros [1, 3, 1]))" by (simp add: zeros_def)
  have c: "causal (tiny_net True None)" "\<not> causal (tiny_net False None)"
    "attn_mask (tiny_net True None) = None"
    by (simp_all add: run_defs Let_def)
  note a = forward_only_sets_attn_mask [OF x, of "tiny_net True None" None]
  note b = forward_only_sets_attn_mask
    [OF z, of "fst (forward (tiny_net True None) (two_frames 1 5) None)" None]
  note d = forward_only_sets_attn_mask [OF x, of "tiny_net False None" None]
  from a b d c x show ?thesis
    by (simp add: two_frames_def zeros_def)
qed

text \<open>
  Claim C9. \<^verbatim>\<open>forward\<close> raises \<open>e\<close> exactly when one of its collaborators raises \<open>e\<close>
  on the arguments the pipeline hands it, all collaborators before it having returned:
  the mask generator on \<open>x\<close> (causal networks only), the embedding module on \<open>x\<close>, the
  encoder on the embedded input with the mask and the padding mask, the projection on
  the encoder's primary output, the output activation on the projected tensor. The error
  is the collaborator's own; \<^verbatim>\<open>forward\<close> adds no check and no handler.
\<close>

theorem forward_raises_iff:
  "snd (forward self x p) = Inl e \<longleftrightarrow>
     (causal self \<and> get_lookahead_mask x = Inl e) \<or>
     (\<exists>m. step_mask self x = Inr m \<and>
        ((\<exists>emb. custom_emb_module self = Some emb \<and> emb x = Inl e) \<or>
         (\<exists>x'. step_embed self x = Inr x' \<and>
            (encoder self x' m p = Inl e \<or>
             (\<exists>y d. encoder self x' m p = Inr (y, d) \<and>
                (Linear_forward (output_layer self) y = Inl e \<or>
                 (\<exists>z. Linear_forward (output_layer self) y = Inr z \<and>
                      output_activation self z = Inl e)))))))"
  by (auto simp: forward_unfold step_mask_def step_embed_def step_encode_def step_project_def
      step_activate_def and_then_def split: sum.splits option.splits if_splits)

text \<open>The mask generator raises on an input without time dimension; the stand-in
  encoder raises on that input when no mask is derived, and on an input of the wrong
  width; an input of the right shape is accepted.\<close>

theorem forward_raises_iff_witness:
  "get_lookahead_mask (zeros [4]) = Inl IndexError \<and>
   snd (forward (tiny_net True None) (zeros [4]) None) = Inl IndexError \<and>
   snd (forward (tiny_net False None) (zeros [4]) None) = Inl RuntimeError \<and>
   snd (forward (tiny_net True None) (zeros [1, 2, 3]) None) = Inl RuntimeError \<and>
   returns (snd (forward (tiny_net True None) (zeros [1, 2, 1]) None))"
proof -
  have m: "causal (tiny_net True None) \<and> get_lookahead_mask (zeros [4]) = Inl IndexError"
    by (simp add: run_defs get_lookahead_mask_def zeros_def Let_def)
  then have a: "snd (forward (tiny_net True None) (zeros [4]) None) = Inl IndexError"
    by (simp add: forward_raises_iff)
  have "step_mask (tiny_net False None) (zeros [4]) = Inr None"
    "step_embed (tiny_net False None) (zeros [4]) = Inr (zeros [4])"
    "encoder (tiny_net False None) (zeros [4]) None None = Inl RuntimeError"
    by (simp_all add: run_defs step_mask_def step_embed_def uniform_attention_def zeros_def Let_def)
  then have b: "snd (forward (tiny_net False None) (zeros [4]) None) = Inl RuntimeError"
    by (simp add: forward_raises_iff)
  have "step_mask (tiny_net True None) (zeros [1, 2, 3]) = Inr (Some \<lparr>mshape = (2, 2), blocked = (\<lambda>i j. i < j)\<rparr>)"
    "step_embed (tiny_net True None) (zeros [1, 2, 3]) = Inr (zeros [1, 2, 3])"
    "encoder (tiny_net True None) (zeros [1, 2, 3]) (Some \<lparr>mshape = (2, 2), blocked = (\<lambda>i j. i < j)\<rparr>) None = Inl RuntimeError"
    by (simp_all add: run_defs step_mask_def step_embed_def uniform_attention_def zeros_def Let_def
        get_lookahead_mask_def and_then_def)
  then have c: "snd (forward (tiny_net True None) (zeros [1, 2, 3]) None) = Inl RuntimeError"
    by (simp add: forward_raises_iff)
  have "\<forall>e. snd (forward (tiny_net True None) (zeros [1, 2, 1]) None) \<noteq> Inl e"
    unfolding forward_raises_iff
    by (simp add: run_defs step_mask_def step_embed_def uniform_attention_def zeros_def Let_def
        get_lookahead_mask_def and_then_def Linear_forward_def ReLU_def elementwise_def)
  then have d: "returns (snd (forward (tiny_net True None) (zeros [1, 2, 1]) None))"
    by (cases "snd (forward (tiny_net True None) (zeros [1, 2, 1]) None)") (simp_all add: returns_def)
  from m a b c d show ?thesis by simp
qed

subsection \<open>The constructor\<close>

text \<open>
  Claim C7. The constructor passes to the transformer interface the head count, the input
  width, \<^verbatim>\<open>num_layers\<close> as the number of encoder layers, zero decoder layers, the
  feed-forward width, the dropout and the inner activation, with positional encoding
  switched off; it builds the projection from \<^verbatim>\<open>input_size\<close> to \<^verbatim>\<open>output_size\<close> without
  bias, and instantiates the output activation.
\<close>

theorem init_delegates:
  "args (CNNTransformerSE_init mk w0 b0 n_out n_in oa nh nl dff dr ia c emb) =
     \<lparr>nhead = nh, input_size = n_in, num_encoder_layers = nl, num_decoder_layers = 0,
      d_ffn = dff, dropout = dr, activation = ia, positional_encoding = False\<rparr>
   \<and> TransformerInterface.truncate (CNNTransformerSE_init mk w0 b0 n_out n_in oa nh nl dff dr ia c emb) =
     TransformerInterface_init mk
       \<lparr>nhead = nh, input_size = n_in, num_encoder_layers = nl, num_decoder_layers = 0,
        d_ffn = dff, dropout = dr, activation = ia, positional_encoding = False\<rparr>
   \<and> output_layer (CNNTransformerSE_init mk w0 b0 n_out n_in oa nh nl dff dr ia c emb) =
     Linear_init w0 b0 n_out n_in False
   \<and> bias (output_layer (CNNTransformerSE_init mk w0 b0 n_out n_in oa nh nl dff dr ia c emb)) = None
   \<and> lin_input_size (output_layer (CNNTransformerSE_init mk w0 b0 n_out n_in oa nh nl dff dr ia c emb)) = n_in
   \<and> n_neurons (output_layer (CNNTransformerSE_init mk w0 b0 n_out n_in oa nh nl dff dr ia c emb)) = n_out
   \<and> output_activation (CNNTransformerSE_init mk w0 b0 n_out n_in oa nh nl dff dr ia c emb) = oa ()
   \<and> causal (CNNTransformerSE_init mk w0 b0 n_out n_in oa nh nl dff dr ia c emb) = c
   \<and> custom_emb_module (CNNTransformerSE_init mk w0 b0 n_out n_in oa nh nl dff dr ia c emb) = emb"
  by (simp add: CNNTransformerSE_init_def TransformerInterface_init_def Linear_init_def Let_def
      TransformerInterface.truncate_def)

end
